theory Spec2Isabelle
  imports Complex_Main
begin

section \<open>Python values and exceptions\<close>

text \<open>
  The valuation engine of \<^verbatim>\<open>valuation_professional.py\<close> computes on Python floats.
  They are rendered here as \<^typ>\<open>real\<close>: the arithmetic is the exact one; overflow,
  infinities and NaN are outside this development, and so is rounding, but for the two
  places where it decides what the code does next (section ``Rounding made explicit'').
  What stays inside is every
  exception the source can raise on exact arithmetic: a division by zero, the unpacking of
  a value that is not a tuple, an index out of range, and the errors of the
  \<^verbatim>\<open>statistics\<close> module on too short a sample.
\<close>

datatype error = ZeroDivisionError | TypeError | IndexError | StatisticsError

text \<open>Python's \<^verbatim>\<open>a / b\<close> on floats raises when the divisor is zero.\<close>

definition pydiv :: "real \<Rightarrow> real \<Rightarrow> error + real" where
  "pydiv a b = (if b = 0 then Inl ZeroDivisionError else Inr (a / b))"

text \<open>Sequencing of two statements, the first of which may raise.\<close>

fun and_then :: "error + 'a \<Rightarrow> ('a \<Rightarrow> error + 'b) \<Rightarrow> error + 'b" where
  "and_then (Inl e) f = Inl e"
| "and_then (Inr x) f = f x"

text \<open>A \<^verbatim>\<open>for\<close> loop that computes one value per element, stopping at the first raise.\<close>

fun for_each :: "('a \<Rightarrow> error + 'b) \<Rightarrow> 'a list \<Rightarrow> error + 'b list" where
  "for_each f [] = Inr []"
| "for_each f (x # xs) =
     and_then (f x) (\<lambda>y. and_then (for_each f xs) (\<lambda>ys. Inr (y # ys)))"

text \<open>List indexing \<^verbatim>\<open>xs[i]\<close> with a non-negative index.\<close>

definition pynth :: "'a list \<Rightarrow> nat \<Rightarrow> error + 'a" where
  "pynth xs i = (if i < length xs then Inr (xs ! i) else Inl IndexError)"

section \<open>RiskModel: \<^verbatim>\<open>calculate_wacc\<close>\<close>

text \<open>
  The function has two \<^verbatim>\<open>return\<close> statements of different shape: the bare cost of
  equity when total capital is zero (line 31), and the triple of WACC, cost of equity and
  cost of debt otherwise (line 38).
\<close>

datatype wacc_result = Bare real | Triple real real real

definition calculate_wacc ::
  "real \<Rightarrow> real \<Rightarrow> real \<Rightarrow> real \<Rightarrow> real \<Rightarrow> real \<Rightarrow> real \<Rightarrow> real \<Rightarrow> error + wacc_result" where
  "calculate_wacc risk_free_rate beta market_risk_premium debt equity_value tax_rate
       country_risk size_premium =
     (let cost_of_equity =
            risk_free_rate + beta * market_risk_premium + country_risk + size_premium;
          credit_spread = (if debt > equity_value then 0.025 else 0.015);
          cost_of_debt = risk_free_rate + credit_spread;
          total_value = debt + equity_value
      in if total_value = 0 then Inr (Bare cost_of_equity)
         else
           and_then (pydiv equity_value total_value) (\<lambda>weight_equity.
           and_then (pydiv debt total_value) (\<lambda>weight_debt.
           let wacc = (weight_equity * cost_of_equity)
                      + (weight_debt * cost_of_debt * (1 - tax_rate))
           in Inr (Triple wacc cost_of_equity cost_of_debt))))"

text \<open>The first (or only) value a caller receives, and the cost of equity it receives.\<close>

fun wacc_of :: "wacc_result \<Rightarrow> real" where
  "wacc_of (Bare c) = c"
| "wacc_of (Triple w c d) = w"

fun cost_of_equity_of :: "wacc_result \<Rightarrow> real" where
  "cost_of_equity_of (Bare c) = c"
| "cost_of_equity_of (Triple w c d) = c"

text \<open>
  The tuple assignment \<^verbatim>\<open>wacc, cost_of_equity, cost_of_debt = calculate_wacc(...)\<close>
  of line 169: a float cannot be unpacked.
\<close>

fun unpack3 :: "wacc_result \<Rightarrow> error + (real \<times> real \<times> real)" where
  "unpack3 (Bare c) = Inl TypeError"
| "unpack3 (Triple w c d) = Inr (w, c, d)"

section \<open>RatioEngine: \<^verbatim>\<open>calculate_financial_ratios\<close>\<close>

record ratios =
  ev :: real
  ev_ebitda :: real
  ev_revenue :: real
  pe :: real
  price_per_share :: real
  fcf_yield :: real
  debt_to_equity :: real
  debt_to_ebitda :: real
  net_debt :: real
  net_debt_to_ebitda :: real
  ebitda_margin :: real
  profit_margin :: real
  roe :: real
  roic :: real
  interest_coverage :: real

definition calculate_financial_ratios ::
  "real \<Rightarrow> real \<Rightarrow> real \<Rightarrow> real \<Rightarrow> real \<Rightarrow> real \<Rightarrow> real \<Rightarrow> real \<Rightarrow> error + ratios" where
  "calculate_financial_ratios revenue ebitda profit debt cash equity_value shares fcf =
     (let r_ev = equity_value + debt - cash in
      and_then (if ebitda > 0 then pydiv r_ev ebitda else Inr 0) (\<lambda>r_ev_ebitda.
      and_then (if revenue > 0 then pydiv r_ev revenue else Inr 0) (\<lambda>r_ev_revenue.
      and_then (if profit > 0 then pydiv equity_value profit else Inr 0) (\<lambda>r_pe.
      and_then (if shares > 0 then pydiv equity_value shares else Inr 0) (\<lambda>r_price_per_share.
      and_then (if equity_value > 0
                then and_then (pydiv fcf equity_value) (\<lambda>q. Inr (q * 100))
                else Inr 0) (\<lambda>r_fcf_yield.
      and_then (if equity_value > 0 then pydiv debt equity_value else Inr 0) (\<lambda>r_debt_to_equity.
      and_then (if ebitda > 0 then pydiv debt ebitda else Inr 0) (\<lambda>r_debt_to_ebitda.
      let r_net_debt = debt - cash in
      and_then (if ebitda > 0 then pydiv r_net_debt ebitda else Inr 0) (\<lambda>r_net_debt_to_ebitda.
      and_then (if revenue > 0
                then and_then (pydiv ebitda revenue) (\<lambda>q. Inr (q * 100))
                else Inr 0) (\<lambda>r_ebitda_margin.
      and_then (if revenue > 0
                then and_then (pydiv profit revenue) (\<lambda>q. Inr (q * 100))
                else Inr 0) (\<lambda>r_profit_margin.
      and_then (if equity_value > 0
                then and_then (pydiv profit equity_value) (\<lambda>q. Inr (q * 100))
                else Inr 0) (\<lambda>r_roe.
      and_then (if (debt + equity_value) > 0
                then and_then (pydiv (profit * 0.8) (debt + equity_value)) (\<lambda>q. Inr (q * 100))
                else Inr 0) (\<lambda>r_roic.
      let interest_expense = debt * 0.05 in
      and_then (if interest_expense > 0 then pydiv ebitda interest_expense else Inr 999)
        (\<lambda>r_interest_coverage.
      Inr \<lparr> ev = r_ev, ev_ebitda = r_ev_ebitda, ev_revenue = r_ev_revenue, pe = r_pe,
            price_per_share = r_price_per_share, fcf_yield = r_fcf_yield,
            debt_to_equity = r_debt_to_equity, debt_to_ebitda = r_debt_to_ebitda,
            net_debt = r_net_debt, net_debt_to_ebitda = r_net_debt_to_ebitda,
            ebitda_margin = r_ebitda_margin, profit_margin = r_profit_margin,
            roe = r_roe, roic = r_roic,
            interest_coverage = r_interest_coverage \<rparr>))))))))))))))"

section \<open>Altman Z-score proxy: \<^verbatim>\<open>altman_z_score\<close>\<close>

definition altman_z_score ::
  "real \<Rightarrow> real \<Rightarrow> real \<Rightarrow> real \<Rightarrow> real \<Rightarrow> error + (real \<times> string)" where
  "altman_z_score revenue ebitda equity_value debt working_capital =
     (let total_assets = equity_value + debt in
      and_then (if total_assets > 0 then pydiv working_capital total_assets else Inr 0) (\<lambda>x1.
      and_then (if total_assets > 0 then pydiv (ebitda * 0.6) total_assets else Inr 0) (\<lambda>x2.
      and_then (if total_assets > 0 then pydiv ebitda total_assets else Inr 0) (\<lambda>x3.
      and_then (if debt > 0 then pydiv equity_value debt else Inr 10) (\<lambda>x4.
      and_then (if total_assets > 0 then pydiv revenue total_assets else Inr 0) (\<lambda>x5.
      let z_score = 1.2 * x1 + 1.4 * x2 + 3.3 * x3 + 0.6 * x4 + 1.0 * x5;
          zone = (if z_score > 2.99 then ''Safe Zone''
                  else if z_score > 1.81 then ''Grey Zone''
                  else ''Distress Zone'')
      in Inr (z_score, zone)))))))"

section \<open>SensitivityEngine, standalone: \<^verbatim>\<open>sensitivity_analysis\<close>\<close>




section \<open>MonteCarloEngine: \<^verbatim>\<open>monte_carlo_valuation\<close>\<close>

text \<open>
  The source draws from \<^verbatim>\<open>random.gauss\<close>, that is from the generator shared by the
  whole process. The generator is not part of the repository: it is a parameter here, a
  step \<open>gauss g mu sigma\<close> from the state \<open>g\<close> of the shared generator to a draw and the
  next state. The routine takes no seed; the state it starts from is the one the process
  happens to be in, and the state it leaves is the one the next call starts from.
\<close>

type_synonym 'g gauss = "'g \<Rightarrow> real \<Rightarrow> real \<Rightarrow> real \<times> 'g"

record mc_results =
  mean :: real
  median :: real
  std :: real
  p10 :: real
  p90 :: real

fun mc_loop ::
  "'g gauss \<Rightarrow> real \<Rightarrow> real \<Rightarrow> real \<Rightarrow> nat \<Rightarrow> real list \<Rightarrow> 'g \<Rightarrow> error + (real list \<times> 'g)" where
  "mc_loop gauss base_value growth_volatility discount_volatility 0 results g =
     Inr (results, g)"
| "mc_loop gauss base_value growth_volatility discount_volatility (Suc n) results g =
     (case gauss g 0 growth_volatility of (growth_shock, g1) \<Rightarrow>
      case gauss g1 0 discount_volatility of (discount_shock, g2) \<Rightarrow>
        and_then (pydiv (base_value * (1 + growth_shock)) (1 + discount_shock))
          (\<lambda>adjusted_value.
             mc_loop gauss base_value growth_volatility discount_volatility n
               (results @ [adjusted_value]) g2))"

text \<open>\<^verbatim>\<open>statistics.mean\<close> and \<^verbatim>\<open>statistics.stdev\<close> (the sample standard deviation).\<close>

definition py_mean :: "real list \<Rightarrow> error + real" where
  "py_mean xs = (if xs = [] then Inl StatisticsError else Inr (sum_list xs / real (length xs)))"

definition py_stdev :: "real list \<Rightarrow> error + real" where
  "py_stdev xs =
     (if length xs < 2 then Inl StatisticsError
      else let m = sum_list xs / real (length xs)
           in Inr (sqrt (sum_list (map (\<lambda>x. (x - m) ^ 2) xs) / real (length xs - 1))))"

text \<open>The iteration count is a natural number: \<^verbatim>\<open>range\<close> of a negative count is empty.\<close>

definition monte_carlo_valuation ::
  "'g gauss \<Rightarrow> real \<Rightarrow> real \<Rightarrow> real \<Rightarrow> nat \<Rightarrow> 'g \<Rightarrow> error + (mc_results \<times> 'g)" where
  "monte_carlo_valuation gauss base_value growth_volatility discount_volatility iterations g =
     and_then (mc_loop gauss base_value growth_volatility discount_volatility iterations [] g)
       (\<lambda>(results, g').
     and_then (py_mean results) (\<lambda>r_mean.
     and_then (pynth (sort results) (length results div 2)) (\<lambda>r_median.
     and_then (py_stdev results) (\<lambda>r_std.
     and_then (pynth (sort results) (nat \<lfloor>real (length results) * 0.1\<rfloor>)) (\<lambda>r_p10.
     and_then (pynth (sort results) (nat \<lfloor>real (length results) * 0.9\<rfloor>)) (\<lambda>r_p90.
     Inr (\<lparr> mean = r_mean, median = r_median, std = r_std, p10 = r_p10, p90 = r_p90 \<rparr>,
          g')))))))"

section \<open>SensitivityEngine, inline: lines 313 to 331 of \<^verbatim>\<open>enhanced_dcf_valuation\<close>\<close>

text \<open>
  The table is printed, not returned: a cell is either the text \<^verbatim>\<open>N/A\<close> or the equity
  value \<^verbatim>\<open>eq\<close> (shown in millions). One row per terminal growth rate, one column per
  discount rate.
\<close>

datatype cell = NA | Equity real

definition sensitivity_cell ::
  "real \<Rightarrow> real \<Rightarrow> real \<Rightarrow> real \<Rightarrow> real \<Rightarrow> real \<Rightarrow> error + cell" where
  "sensitivity_cell terminal_fcf total_pv_fcf cash debt tg dr =
     (if dr \<le> tg then Inr NA
      else
        and_then (pydiv terminal_fcf (dr - tg)) (\<lambda>tv.
        and_then (pydiv tv ((1 + dr) ^ 10)) (\<lambda>pv_tv.
        let ev = total_pv_fcf + pv_tv;
            eq = ev + cash - debt
        in Inr (Equity eq))))"

text \<open>
  The two ranges in exact arithmetic; \<open>dr_range_rnd\<close> and \<open>tg_range_rnd\<close> below have the
  rounding of their sums and differences as a parameter.
\<close>

definition dr_range :: "real \<Rightarrow> real list" where
  "dr_range wacc = [wacc - 0.02, wacc - 0.01, wacc, wacc + 0.01, wacc + 0.02]"

definition tg_range :: "real \<Rightarrow> real list" where
  "tg_range terminal_growth =
     [terminal_growth - 0.01, terminal_growth - 0.005, terminal_growth,
      terminal_growth + 0.005, terminal_growth + 0.01]"

definition sensitivity_table ::
  "real \<Rightarrow> real \<Rightarrow> real \<Rightarrow> real \<Rightarrow> real \<Rightarrow> real \<Rightarrow> error + cell list list" where
  "sensitivity_table wacc terminal_growth terminal_fcf total_pv_fcf cash debt =
     for_each
       (\<lambda>tg. for_each (sensitivity_cell terminal_fcf total_pv_fcf cash debt tg) (dr_range wacc))
       (tg_range terminal_growth)"

section \<open>RecommendationEngine: lines 363 to 378 of \<^verbatim>\<open>enhanced_dcf_valuation\<close>\<close>

definition recommendation_of :: "real \<Rightarrow> string" where
  "recommendation_of upside =
     (if upside > 20 then ''STRONG BUY''
      else if upside > 10 then ''BUY''
      else if upside > -10 then ''HOLD''
      else if upside > -20 then ''UNDERWEIGHT''
      else ''SELL'')"

section \<open>TerminalValueEngine: lines 218 to 226 of \<^verbatim>\<open>enhanced_dcf_valuation\<close>\<close>

text \<open>\<^verbatim>\<open>projected_fcf[-1]\<close>.\<close>

definition pylast :: "'a list \<Rightarrow> error + 'a" where
  "pylast xs = (if xs = [] then Inl IndexError else Inr (last xs))"

record terminal =
  terminal_fcf :: real
  clamped_growth :: real
  terminal_value :: real
  pv_terminal_value :: real

text \<open>
  The lines in exact arithmetic. The difference \<open>wacc - 0.01\<close> and the divisor
  \<open>wacc - terminal_growth\<close> are rounded by the code; \<open>terminal_value_calc_rnd\<close> below has
  the same lines with that rounding as a parameter.
\<close>

definition terminal_value_calc :: "real \<Rightarrow> real \<Rightarrow> real list \<Rightarrow> error + terminal" where
  "terminal_value_calc wacc terminal_growth projected_fcf =
     and_then (pylast projected_fcf) (\<lambda>fcf_last.
     let terminal_fcf = fcf_last * (1 + terminal_growth);
         terminal_growth =
           (if wacc \<le> terminal_growth then min terminal_growth (wacc - 0.01)
            else terminal_growth)
     in
     and_then (pydiv terminal_fcf (wacc - terminal_growth)) (\<lambda>terminal_value.
     and_then (pydiv terminal_value ((1 + wacc) ^ 10)) (\<lambda>pv_terminal_value.
     Inr \<lparr> terminal_fcf = terminal_fcf, clamped_growth = terminal_growth,
           terminal_value = terminal_value, pv_terminal_value = pv_terminal_value \<rparr>)))"

section \<open>The valuation: \<^verbatim>\<open>enhanced_dcf_valuation\<close>\<close>

text \<open>
  The function reads its input from a dictionary and converts every numeric entry with
  \<^verbatim>\<open>float\<close> (lines 130 to 161). The record below is the input after that prologue.
\<close>

record company_data =
  name :: string
  sector :: string
  revenue :: real
  ebitda :: real
  depreciation :: real
  capex_pct :: real
  working_capital_change :: real
  profit_margin :: real
  growth_rate_y1 :: real
  growth_rate_y2 :: real
  growth_rate_y3 :: real
  terminal_growth :: real
  tax_rate :: real
  shares_outstanding :: real
  debt :: real
  cash :: real
  market_cap_estimate :: real
  beta :: real
  risk_free_rate :: real
  market_risk_premium :: real
  country_risk_premium :: real
  size_premium :: real
  comparable_ev_ebitda :: real
  comparable_pe :: real
  comparable_peg :: real

subsection \<open>Lines 187 to 216: the ten-year projection\<close>

definition growth_schedule :: "company_data \<Rightarrow> real list" where
  "growth_schedule c =
     [growth_rate_y1 c, growth_rate_y1 c, growth_rate_y2 c, growth_rate_y2 c, growth_rate_y3 c,
      growth_rate_y3 c, (growth_rate_y3 c + terminal_growth c) / 2, terminal_growth c + 0.01,
      terminal_growth c + 0.005, terminal_growth c]"

text \<open>
  The state of the loop is \<^verbatim>\<open>current_revenue\<close>, \<^verbatim>\<open>total_pv_fcf\<close> and
  \<^verbatim>\<open>projected_fcf\<close>; one call of \<open>project_year\<close> is one pass through its body.
\<close>

type_synonym projection = "real \<times> real \<times> real list"

definition project_year :: "company_data \<Rightarrow> real \<Rightarrow> nat \<Rightarrow> projection \<Rightarrow> error + projection" where
  "project_year c wacc year st =
     (case st of (current_revenue, total_pv_fcf, projected_fcf) \<Rightarrow>
      and_then (pynth (growth_schedule c) (year - 1)) (\<lambda>growth_rate.
      let current_revenue = current_revenue * (1 + growth_rate) in
      and_then (pydiv (ebitda c) (revenue c)) (\<lambda>ebitda_margin.
      let year_ebitda = current_revenue * ebitda_margin in
      and_then (pydiv (depreciation c) (revenue c)) (\<lambda>da_margin.
      let year_da = current_revenue * da_margin;
          year_ebit = year_ebitda - year_da;
          year_nopat = year_ebit * (1 - tax_rate c);
          year_capex = current_revenue * capex_pct c;
          year_wc = working_capital_change c * (1 + growth_rate) ^ year;
          year_fcf = year_nopat + year_da - year_capex - year_wc
      in
      and_then (pydiv 1 ((1 + wacc) ^ year)) (\<lambda>discount_factor.
      let pv_fcf = year_fcf * discount_factor
      in Inr (current_revenue, total_pv_fcf + pv_fcf, projected_fcf @ [year_fcf]))))))"

fun project_years :: "company_data \<Rightarrow> real \<Rightarrow> nat list \<Rightarrow> projection \<Rightarrow> error + projection" where
  "project_years c wacc [] st = Inr st"
| "project_years c wacc (year # years) st =
     and_then (project_year c wacc year st) (project_years c wacc years)"

subsection \<open>Lines 168 to 237: cost of capital, projection, terminal value, DCF value\<close>

text \<open>The local variables of the function once line 237 has run.\<close>

record dcf_locals =
  l_wacc :: real
  l_projected_fcf :: "real list"
  l_total_pv_fcf :: real
  l_terminal :: terminal
  l_dcf_enterprise_value :: real
  l_dcf_equity_value :: real
  l_dcf_price_per_share :: real

definition dcf_stage :: "company_data \<Rightarrow> error + dcf_locals" where
  "dcf_stage c =
     and_then (calculate_wacc (risk_free_rate c) (beta c) (market_risk_premium c) (debt c)
                 (market_cap_estimate c) (tax_rate c) (country_risk_premium c) (size_premium c))
       (\<lambda>r.
     and_then (unpack3 r) (\<lambda>(wacc, cost_of_equity, cost_of_debt).
     and_then (project_years c wacc [1..<11] (revenue c, 0, []))
       (\<lambda>(current_revenue, total_pv_fcf, projected_fcf).
     and_then (terminal_value_calc wacc (terminal_growth c) projected_fcf) (\<lambda>t.
     let dcf_enterprise_value = total_pv_fcf + pv_terminal_value t;
         dcf_equity_value = dcf_enterprise_value + cash c - debt c
     in
     and_then (pydiv dcf_equity_value (shares_outstanding c)) (\<lambda>dcf_price_per_share.
     Inr \<lparr> l_wacc = wacc, l_projected_fcf = projected_fcf, l_total_pv_fcf = total_pv_fcf,
           l_terminal = t, l_dcf_enterprise_value = dcf_enterprise_value,
           l_dcf_equity_value = dcf_equity_value,
           l_dcf_price_per_share = dcf_price_per_share \<rparr>)))))"

subsection \<open>Lines 249 to 414: comparables, blend, ratios, table, simulation, result\<close>

record valuation_result =
  name :: string
  sector :: string
  dcf_equity_value :: real
  dcf_price_per_share :: real
  comp_ev_value :: real
  comp_pe_value :: real
  final_equity_value :: real
  final_price_per_share :: real
  market_cap :: real
  current_price :: real
  upside_pct :: real
  recommendation :: string
  wacc :: real
  ev_ebitda :: real
  pe_ratio :: real
  fcf_yield :: real
  roe :: real
  roic :: real
  debt_to_equity :: real
  z_score :: real
  mc_p10 :: real
  mc_p90 :: real

text \<open>
  The printing is left out but for the divisions it performs (line 357) and the table of
  lines 313 to 331, whose cells can raise. The generator state is threaded through the
  simulation of line 334.
\<close>

definition enhanced_dcf_valuation ::
  "'g gauss \<Rightarrow> company_data \<Rightarrow> 'g \<Rightarrow> error + (valuation_result \<times> 'g)" where
  "enhanced_dcf_valuation gauss c g =
     and_then (dcf_stage c) (\<lambda>d.
     let comp_ev_method = ebitda c * comparable_ev_ebitda c;
         comp_equity_ev = comp_ev_method - debt c + cash c;
         profit = revenue c * profit_margin c;
         comp_pe_method = profit * comparable_pe c
     in
     and_then (if profit > 0 then pydiv (l_dcf_equity_value d) profit else Inr 0) (\<lambda>current_pe.
     and_then (if growth_rate_y1 c > 0 then pydiv current_pe (growth_rate_y1 c) else Inr 0)
       (\<lambda>implied_peg.
     let weight_dcf = 0.50;
         weight_ev_ebitda = 0.25;
         weight_pe = 0.25;
         final_equity = l_dcf_equity_value d * weight_dcf
                        + comp_equity_ev * weight_ev_ebitda
                        + comp_pe_method * weight_pe
     in
     and_then (pydiv final_equity (shares_outstanding c)) (\<lambda>final_price.
     and_then (pynth (l_projected_fcf d) 0) (\<lambda>fcf_current.
     and_then (calculate_financial_ratios (revenue c) (ebitda c) profit (debt c) (cash c)
                 final_equity (shares_outstanding c) fcf_current) (\<lambda>rs.
     and_then (altman_z_score (revenue c) (ebitda c) final_equity (debt c)
                 (working_capital_change c)) (\<lambda>(z, z_zone).
     and_then (sensitivity_table (l_wacc d) (clamped_growth (l_terminal d))
                 (terminal_fcf (l_terminal d)) (l_total_pv_fcf d) (cash c) (debt c)) (\<lambda>table.
     and_then (monte_carlo_valuation gauss final_equity 0.15 0.10 1000 g) (\<lambda>(mc, g').
     and_then (pydiv (market_cap_estimate c) (shares_outstanding c)) (\<lambda>printed_price.
     and_then (pydiv (final_equity - market_cap_estimate c) (market_cap_estimate c)) (\<lambda>q.
     let upside = q * 100;
         rec = recommendation_of upside;
         target_price = final_price
     in
     and_then (pydiv (market_cap_estimate c) (shares_outstanding c)) (\<lambda>price.
     Inr (\<lparr> name = company_data.name c,
            sector = company_data.sector c,
            dcf_equity_value = l_dcf_equity_value d,
            dcf_price_per_share = l_dcf_price_per_share d,
            comp_ev_value = comp_equity_ev,
            comp_pe_value = comp_pe_method,
            final_equity_value = final_equity,
            final_price_per_share = final_price,
            market_cap = market_cap_estimate c,
            current_price = price,
            upside_pct = upside,
            recommendation = rec,
            wacc = l_wacc d,
            ev_ebitda = ratios.ev_ebitda rs,
            pe_ratio = pe rs,
            fcf_yield = ratios.fcf_yield rs,
            roe = ratios.roe rs,
            roic = ratios.roic rs,
            debt_to_equity = ratios.debt_to_equity rs,
            z_score = z,
            mc_p10 = p10 mc,
            mc_p90 = p90 mc \<rparr>, g')))))))))))))"

section \<open>The facade: \<^verbatim>\<open>ValuationService.run_valuation\<close>\<close>

text \<open>
  The service calls the valuation inside \<^verbatim>\<open>try\<close> and turns every exception into
  \<^verbatim>\<open>None\<close> (lines 136 to 156 of \<^verbatim>\<open>valuation_service.py\<close>); a result dictionary
  is never empty, so the test \<^verbatim>\<open>if result\<close> passes whenever the valuation returns.
\<close>

definition run_valuation ::
  "'g gauss \<Rightarrow> company_data \<Rightarrow> 'g \<Rightarrow> (valuation_result \<times> 'g) option" where
  "run_valuation gauss c g =
     (case enhanced_dcf_valuation gauss c g of Inl e \<Rightarrow> None | Inr r \<Rightarrow> Some r)"

section \<open>Rounding made explicit\<close>

text \<open>
  A double rounds every sum and every difference. In two places of the valuation the
  rounded result decides what the code does next. One is the clamp of the terminal growth:
  the difference \<open>WACC - terminal_growth\<close> taken after it is the divisor of the terminal
  value, and a difference that rounds to zero makes the division raise. The other is the
  pair of ranges of the printed table, whose entries are sums and differences that are
  then compared with each other. These places are written here once more, with the
  rounding of a sum or difference as a parameter \<open>rnd\<close>; the valuation that goes with them
  also hands back the table it prints. With the identity for \<open>rnd\<close> they are the
  definitions above. Products, quotients and powers stay exact.
\<close>

type_synonym rounding = "real \<Rightarrow> real"

definition terminal_value_calc_rnd ::
  "rounding \<Rightarrow> real \<Rightarrow> real \<Rightarrow> real list \<Rightarrow> error + terminal" where
  "terminal_value_calc_rnd rnd w tg projected_fcf =
     and_then (pylast projected_fcf) (\<lambda>fcf_last.
     let terminal_fcf = fcf_last * (1 + tg);
         terminal_growth =
           (if w \<le> tg then min tg (rnd (w - 0.01))
            else tg)
     in
     and_then (pydiv terminal_fcf (rnd (w - terminal_growth))) (\<lambda>terminal_value.
     and_then (pydiv terminal_value ((1 + w) ^ 10)) (\<lambda>pv_terminal_value.
     Inr \<lparr> terminal_fcf = terminal_fcf, clamped_growth = terminal_growth,
           terminal_value = terminal_value, pv_terminal_value = pv_terminal_value \<rparr>)))"






text \<open>
  A coarse rounding for examples: to the nearest whole number, as a double rounds to the
  nearest of its own values.
\<close>

definition nearest_whole :: rounding where
  "nearest_whole x = of_int \<lfloor>x + 1 / 2\<rfloor>"

section \<open>The projection in the words of the specification\<close>

text \<open>
  The specification gives the projection year by year: the revenue of year \<open>t\<close> is the
  revenue of the year before times \<open>1 + g\<^sub>t\<close>, where \<open>g\<^sub>t\<close> is entry \<open>t\<close> of the growth
  schedule; the margins of EBITDA and of depreciation are those of the base year; the
  free cash flow is NOPAT plus depreciation less capital expenditure less the change in
  working capital; its present value divides by \<open>(1 + WACC) ^ t\<close>.
\<close>

fun spec_revenue :: "company_data \<Rightarrow> nat \<Rightarrow> real" where
  "spec_revenue c 0 = revenue c"
| "spec_revenue c (Suc t) = spec_revenue c t * (1 + growth_schedule c ! t)"

definition spec_fcf :: "company_data \<Rightarrow> nat \<Rightarrow> real" where
  "spec_fcf c t =
     (let g = growth_schedule c ! (t - 1);
          ebitda_t = spec_revenue c t * (ebitda c / revenue c);
          da_t = spec_revenue c t * (depreciation c / revenue c);
          nopat_t = (ebitda_t - da_t) * (1 - tax_rate c);
          capex_t = spec_revenue c t * capex_pct c;
          wc_t = working_capital_change c * (1 + g) ^ t
      in nopat_t + da_t - capex_t - wc_t)"

definition spec_pv_fcf :: "company_data \<Rightarrow> real \<Rightarrow> nat \<Rightarrow> real" where
  "spec_pv_fcf c w t = spec_fcf c t / (1 + w) ^ t"

text \<open>
  The terminal value in the same words: the terminal cash flow grows the last projected
  one by the terminal growth as given; the growth is then clamped to
  \<open>min terminal_growth (WACC - 0.01)\<close> when the WACC does not exceed it; the terminal
  value divides by \<open>WACC - terminal_growth\<close> and its present value by \<open>(1 + WACC) ^ 10\<close>.
\<close>

definition spec_terminal :: "real \<Rightarrow> real \<Rightarrow> real \<Rightarrow> terminal" where
  "spec_terminal w tg fcf10 =
     (let tfcf = fcf10 * (1 + tg);
          tg' = (if w \<le> tg then min tg (w - 0.01) else tg);
          tv = tfcf / (w - tg')
      in \<lparr> terminal_fcf = tfcf, clamped_growth = tg', terminal_value = tv,
           pv_terminal_value = tv / (1 + w) ^ 10 \<rparr>)"


section \<open>Inputs and generators used as examples\<close>

text \<open>
  The example input of the schema in \<^verbatim>\<open>models.py\<close>, which is also the end-to-end
  scenario of the specification.
\<close>

definition example_company :: company_data where
  "example_company =
     \<lparr> company_data.name = ''TechStartup Inc'', company_data.sector = ''Software'',
       revenue = 5000000, ebitda = 1500000, depreciation = 100000,
       capex_pct = 0.05, working_capital_change = -50000, profit_margin = 0.15,
       growth_rate_y1 = 0.30, growth_rate_y2 = 0.25, growth_rate_y3 = 0.20,
       terminal_growth = 0.03, tax_rate = 0.25, shares_outstanding = 1000000,
       debt = 500000, cash = 1000000, market_cap_estimate = 3000000,
       beta = 1.5, risk_free_rate = 0.04, market_risk_premium = 0.07,
       country_risk_premium = 0, size_premium = 0.03,
       comparable_ev_ebitda = 12, comparable_pe = 25, comparable_peg = 1.5 \<rparr>"

text \<open>
  A loss-making, highly indebted company. Every field is within the ranges of the
  specification's data model and of the schema in \<^verbatim>\<open>models.py\<close>; its WACC
  (\<open>19 / 880\<close>, about 2.2 percent) is below its terminal growth of 3 percent.
\<close>

definition loss_maker :: company_data where
  "loss_maker =
     \<lparr> company_data.name = ''Loss Maker'', company_data.sector = ''Retail'',
       revenue = 100, ebitda = -20, depreciation = 5,
       capex_pct = 0.05, working_capital_change = 0, profit_margin = -0.2,
       growth_rate_y1 = 0.05, growth_rate_y2 = 0.05, growth_rate_y3 = 0.05,
       terminal_growth = 0.03, tax_rate = 0.25, shares_outstanding = 10,
       debt = 1000, cash = 0, market_cap_estimate = 100,
       beta = 1, risk_free_rate = 0, market_risk_premium = 0.05,
       country_risk_premium = 0, size_premium = 0,
       comparable_ev_ebitda = 10, comparable_pe = 15, comparable_peg = 1.5 \<rparr>"

text \<open>
  Two stand-ins for the shared generator. The first never moves: its state is a number
  \<open>q\<close> and every draw is \<open>mu + sigma * q\<close>. The second counts its draws: draw number \<open>n\<close>
  is \<open>mu + sigma * n\<close>.
\<close>

definition still_gauss :: "real gauss" where
  "still_gauss q mu sigma = (mu + sigma * q, q)"

definition counting_gauss :: "nat gauss" where
  "counting_gauss n mu sigma = (mu + sigma * real n, Suc n)"

section \<open>Properties\<close>

subsection \<open>Divisions and sequencing\<close>

lemma pydiv_nonzero: "b \<noteq> 0 \<Longrightarrow> pydiv a b = Inr (a / b)"
  by (simp add: pydiv_def)

lemma pydiv_zero: "pydiv a 0 = Inl ZeroDivisionError"
  by (simp add: pydiv_def)

lemma guarded_div: "(if 0 < b then pydiv a b else Inr z) = Inr (if 0 < b then a / b else z)"
  by (simp add: pydiv_def)

lemma guarded_pct:
  "(if 0 < b then and_then (pydiv a b) (\<lambda>q. Inr (q * 100)) else Inr z)
     = Inr (if 0 < b then a / b * 100 else z)"
  by (simp add: pydiv_def)

lemma and_then_Inr_iff: "and_then x f = Inr y \<longleftrightarrow> (\<exists>a. x = Inr a \<and> f a = Inr y)"
  by (cases x) auto

subsection \<open>The ratios\<close>

text \<open>Every division of the routine sits under a guard that excludes a zero divisor.\<close>

lemma calculate_financial_ratios_eq:
  "calculate_financial_ratios rv eb pr db ca eq sh fc =
     Inr \<lparr> ev = eq + db - ca,
           ev_ebitda = (if 0 < eb then (eq + db - ca) / eb else 0),
           ev_revenue = (if 0 < rv then (eq + db - ca) / rv else 0),
           pe = (if 0 < pr then eq / pr else 0),
           price_per_share = (if 0 < sh then eq / sh else 0),
           fcf_yield = (if 0 < eq then fc / eq * 100 else 0),
           debt_to_equity = (if 0 < eq then db / eq else 0),
           debt_to_ebitda = (if 0 < eb then db / eb else 0),
           net_debt = db - ca,
           net_debt_to_ebitda = (if 0 < eb then (db - ca) / eb else 0),
           ebitda_margin = (if 0 < rv then eb / rv * 100 else 0),
           profit_margin = (if 0 < rv then pr / rv * 100 else 0),
           roe = (if 0 < eq then pr / eq * 100 else 0),
           roic = (if 0 < db + eq then pr * 0.8 / (db + eq) * 100 else 0),
           interest_coverage = (if 0 < db * 0.05 then eb / (db * 0.05) else 999) \<rparr>"
  unfolding calculate_financial_ratios_def Let_def guarded_div guarded_pct and_then.simps
  by (rule refl)

text \<open>
  Claim C8. The ratio computation returns on every input (it never raises), and its
  guards give the defaults: with \<open>ebitda \<le> 0\<close> the ratios \<open>ev_ebitda\<close>,
  \<open>debt_to_ebitda\<close> and \<open>net_debt_to_ebitda\<close> are 0; with \<open>profit \<le> 0\<close>, \<open>pe\<close> is 0;
  with \<open>equity_value \<le> 0\<close>, \<open>fcf_yield\<close>, \<open>debt_to_equity\<close> and \<open>roe\<close> are 0; with
  \<open>debt = 0\<close>, \<open>interest_coverage\<close> is 999.
\<close>

theorem ratio_guards:
  "\<exists>r. calculate_financial_ratios rv eb pr db ca eq sh fc = Inr r
     \<and> (eb \<le> 0 \<longrightarrow> ratios.ev_ebitda r = 0 \<and> debt_to_ebitda r = 0 \<and> net_debt_to_ebitda r = 0)
     \<and> (pr \<le> 0 \<longrightarrow> pe r = 0)
     \<and> (eq \<le> 0 \<longrightarrow> ratios.fcf_yield r = 0 \<and> ratios.debt_to_equity r = 0 \<and> ratios.roe r = 0)
     \<and> (db = 0 \<longrightarrow> interest_coverage r = 999)"
  by (simp add: calculate_financial_ratios_eq)

theorem ratio_guards_witness:
  "\<exists>r. calculate_financial_ratios 100 0 (-5) 0 10 (-1) 1 3 = Inr r
     \<and> ratios.ev_ebitda r = 0 \<and> debt_to_ebitda r = 0 \<and> net_debt_to_ebitda r = 0
     \<and> pe r = 0 \<and> ratios.fcf_yield r = 0 \<and> ratios.debt_to_equity r = 0 \<and> ratios.roe r = 0
     \<and> interest_coverage r = 999"
  using ratio_guards [of 100 0 "-5" 0 10 "-1" 1 3] by simp

text \<open>
  Claim C10. The interest coverage is not capped at 999: with \<open>ebitda = 1000\<close> and
  \<open>debt = 0.1\<close> the routine returns \<open>1000 / (0.1 * 0.05) = 200000\<close>, whatever the other
  inputs are; 999 is what it returns when the debt is zero.
\<close>

theorem interest_coverage_not_capped:
  "(\<exists>r. calculate_financial_ratios rv 1000 pr 0.1 ca eq sh fc = Inr r
        \<and> interest_coverage r = 200000 \<and> 999 < interest_coverage r)
   \<and> (\<exists>r. calculate_financial_ratios rv eb pr 0 ca eq sh fc = Inr r
        \<and> interest_coverage r = 999)"
  by (simp add: calculate_financial_ratios_eq)

subsection \<open>The cost of capital\<close>

lemma calculate_wacc_zero_capital:
  "db + eq = 0 \<Longrightarrow> calculate_wacc rf b mrp db eq tx cr sp = Inr (Bare (rf + b * mrp + cr + sp))"
  by (simp add: calculate_wacc_def)

lemma calculate_wacc_eq:
  "db + eq \<noteq> 0 \<Longrightarrow>
   calculate_wacc rf b mrp db eq tx cr sp =
     Inr (Triple (eq / (db + eq) * (rf + b * mrp + cr + sp)
                  + db / (db + eq) * (rf + (if eq < db then 0.025 else 0.015)) * (1 - tx))
                 (rf + b * mrp + cr + sp)
                 (rf + (if eq < db then 0.025 else 0.015)))"
  by (simp add: calculate_wacc_def Let_def pydiv_nonzero)

text \<open>
  Claim C6, as amended. Between two inputs of the WACC computation that differ in beta
  only, the larger beta gives the strictly larger cost of equity when the market risk
  premium is positive, and then also the strictly larger WACC when the weight of equity
  \<open>equity_value / (debt + equity_value)\<close> is positive or total capital is zero. The
  computation returns in every case.
\<close>

theorem beta_monotone:
  assumes "ba < bb" and "0 < mrp"
  shows "\<exists>r1 r2. calculate_wacc rf ba mrp db eq tx cr sp = Inr r1
           \<and> calculate_wacc rf bb mrp db eq tx cr sp = Inr r2
           \<and> cost_of_equity_of r1 < cost_of_equity_of r2
           \<and> (db + eq = 0 \<or> 0 < eq / (db + eq) \<longrightarrow> wacc_of r1 < wacc_of r2)"
proof (cases "db + eq = 0")
  case True
  from assms have "ba * mrp < bb * mrp" by simp
  with True show ?thesis by (simp add: calculate_wacc_zero_capital)
next
  case False
  from assms have less: "ba * mrp < bb * mrp" by simp
  have "eq / (db + eq) * (rf + ba * mrp + cr + sp) < eq / (db + eq) * (rf + bb * mrp + cr + sp)"
    if "0 < eq / (db + eq)"
    by (rule mult_strict_left_mono [OF _ that]) (use less in simp)
  with False less show ?thesis by (simp add: calculate_wacc_eq del: times_divide_eq_left)
qed

theorem beta_monotone_witness:
  "\<exists>r1 r2. calculate_wacc 0.04 1 0.07 500000 3000000 0.25 0 0.03 = Inr r1
         \<and> calculate_wacc 0.04 1.5 0.07 500000 3000000 0.25 0 0.03 = Inr r2
         \<and> cost_of_equity_of r1 < cost_of_equity_of r2 \<and> wacc_of r1 < wacc_of r2"
  using beta_monotone [where ba = 1 and bb = "1.5" and mrp = "0.07" and rf = "0.04" and db = 500000
      and eq = 3000000 and tx = "0.25" and cr = 0 and sp = "0.03"] by simp

text \<open>
  Without these conditions the claim fails. With a market risk premium of zero, beta 1
  and beta 2 give the same cost of equity and the same WACC; with no equity in the
  capital (debt 1000, equity value 0) the cost of equity rises from 0.11 to 0.18 and the
  WACC stays at 0.04875.
\<close>

theorem beta_monotone_counterexample:
  "calculate_wacc 0.04 1 0 0 1000 0.25 0 0 = Inr (Triple 0.04 0.04 0.055)
   \<and> calculate_wacc 0.04 2 0 0 1000 0.25 0 0 = Inr (Triple 0.04 0.04 0.055)
   \<and> calculate_wacc 0.04 1 0.07 1000 0 0.25 0 0 = Inr (Triple 0.04875 0.11 0.065)
   \<and> calculate_wacc 0.04 2 0.07 1000 0 0.25 0 0 = Inr (Triple 0.04875 0.18 0.065)"
  by (simp add: calculate_wacc_eq)

text \<open>
  Claim C9. With total capital zero the routine returns the cost of equity alone, not
  the triple it returns otherwise: at the example input with debt and market
  capitalisation set to zero it returns the bare 0.175, the tuple assignment of line 169
  raises, and the facade returns \<^verbatim>\<open>None\<close>.
\<close>

theorem zero_capital_not_unpackable:
  "calculate_wacc 0.04 1.5 0.07 0 0 0.25 0 0.03 = Inr (Bare 0.175)
   \<and> dcf_stage (example_company\<lparr>debt := 0, market_cap_estimate := 0\<rparr>) = Inl TypeError
   \<and> enhanced_dcf_valuation gauss (example_company\<lparr>debt := 0, market_cap_estimate := 0\<rparr>) g
       = Inl TypeError
   \<and> run_valuation gauss (example_company\<lparr>debt := 0, market_cap_estimate := 0\<rparr>) g = None"
  by (simp add: calculate_wacc_zero_capital dcf_stage_def enhanced_dcf_valuation_def
      run_valuation_def example_company_def)

subsection \<open>The projection loop\<close>

lemma length_growth_schedule: "length (growth_schedule c) = 10"
  by (simp add: growth_schedule_def)

lemma project_years_append:
  "project_years c w (xs @ ys) st = and_then (project_years c w xs st) (project_years c w ys)"
proof (induction xs arbitrary: st)
  case Nil
  show ?case by simp
next
  case (Cons x xs)
  show ?case
    by (cases "project_year c w x st") (simp_all add: Cons.IH)
qed

lemma project_year_eq:
  assumes "revenue c \<noteq> 0" and "1 + w \<noteq> 0" and "n < 10"
  shows "project_year c w (Suc n) (spec_revenue c n, s, fs) =
           Inr (spec_revenue c (Suc n), s + spec_pv_fcf c w (Suc n), fs @ [spec_fcf c (Suc n)])"
  using assms
  by (simp add: project_year_def pynth_def length_growth_schedule pydiv_nonzero Let_def
      spec_fcf_def spec_pv_fcf_def)

lemma project_years_upto:
  assumes "revenue c \<noteq> 0" and "1 + w \<noteq> 0" and "n \<le> 10"
  shows "project_years c w [1..<Suc n] (revenue c, 0, []) =
           Inr (spec_revenue c n, (\<Sum>t\<leftarrow>[1..<Suc n]. spec_pv_fcf c w t),
                map (spec_fcf c) [1..<Suc n])"
  using assms(3)
proof (induction n)
  case 0
  show ?case by simp
next
  case (Suc n)
  then have "n < 10" and IH: "project_years c w [1..<Suc n] (revenue c, 0, []) =
      Inr (spec_revenue c n, (\<Sum>t\<leftarrow>[1..<Suc n]. spec_pv_fcf c w t), map (spec_fcf c) [1..<Suc n])"
    by simp_all
  have "[1..<Suc (Suc n)] = [1..<Suc n] @ [Suc n]" by simp
  then show ?case
    by (simp only: project_years_append IH and_then.simps project_years.simps
        project_year_eq [OF assms(1,2) \<open>n < 10\<close>] map_append sum_list_append list.map
        sum_list.Cons sum_list.Nil add_0_right)
qed

lemma project_years_ten:
  assumes "revenue c \<noteq> 0" and "1 + w \<noteq> 0"
  shows "project_years c w [1..<11] (revenue c, 0, []) =
           Inr (spec_revenue c 10, (\<Sum>t\<leftarrow>[1..<11]. spec_pv_fcf c w t),
                map (spec_fcf c) [1..<11])"
  using project_years_upto [OF assms, of 10] by (simp add: eval_nat_numeral)

subsection \<open>The terminal value and the DCF value\<close>

lemma clamp_gap: "w - (if w \<le> tg then min tg (w - 0.01) else tg) \<noteq> (0::real)"
  by (simp add: min_def)

lemma terminal_value_calc_eq:
  assumes "fs \<noteq> []" and "1 + w \<noteq> 0"
  shows "terminal_value_calc w tg fs = Inr (spec_terminal w tg (last fs))"
  using assms clamp_gap [of w tg]
  by (simp add: terminal_value_calc_def pylast_def spec_terminal_def Let_def pydiv_nonzero)

lemma terminal_value_calc_raises:
  assumes "fs \<noteq> []" and "1 + w = 0"
  shows "terminal_value_calc w tg fs = Inl ZeroDivisionError"
  using assms clamp_gap [of w tg]
  by (simp add: terminal_value_calc_def pylast_def Let_def pydiv_nonzero pydiv_zero)

lemma last_projected: "last (map f [1..<11]) = f 10"
  by (simp add: last_map)

lemma dcf_stage_eq:
  assumes "calculate_wacc (risk_free_rate c) (beta c) (market_risk_premium c) (debt c)
             (market_cap_estimate c) (tax_rate c) (country_risk_premium c) (size_premium c)
           = Inr (Triple w ce cd)"
    and "revenue c \<noteq> 0" and "1 + w \<noteq> 0" and "shares_outstanding c \<noteq> 0"
  shows "dcf_stage c =
     Inr \<lparr> l_wacc = w,
           l_projected_fcf = map (spec_fcf c) [1..<11],
           l_total_pv_fcf = (\<Sum>t\<leftarrow>[1..<11]. spec_pv_fcf c w t),
           l_terminal = spec_terminal w (terminal_growth c) (spec_fcf c 10),
           l_dcf_enterprise_value = (\<Sum>t\<leftarrow>[1..<11]. spec_pv_fcf c w t)
             + pv_terminal_value (spec_terminal w (terminal_growth c) (spec_fcf c 10)),
           l_dcf_equity_value = (\<Sum>t\<leftarrow>[1..<11]. spec_pv_fcf c w t)
             + pv_terminal_value (spec_terminal w (terminal_growth c) (spec_fcf c 10))
             + cash c - debt c,
           l_dcf_price_per_share = ((\<Sum>t\<leftarrow>[1..<11]. spec_pv_fcf c w t)
             + pv_terminal_value (spec_terminal w (terminal_growth c) (spec_fcf c 10))
             + cash c - debt c) / shares_outstanding c \<rparr>"
proof -
  have ne: "map (spec_fcf c) [1..<11] \<noteq> []" by simp
  show ?thesis
    unfolding dcf_stage_def assms(1) and_then.simps unpack3.simps prod.case
      project_years_ten [OF assms(2,3)] terminal_value_calc_eq [OF ne assms(3)]
      last_projected Let_def pydiv_nonzero [OF assms(4)]
    by (rule refl)
qed

lemma pydiv_Inr_iff: "pydiv a b = Inr q \<longleftrightarrow> b \<noteq> 0 \<and> q = a / b"
  by (auto simp: pydiv_def)

lemma project_year_Inr_D:
  assumes "project_year c w y st = Inr st'"
  shows "revenue c \<noteq> 0 \<and> (1 + w) ^ y \<noteq> 0"
  using assms
  by (cases st) (auto simp: project_year_def and_then_Inr_iff pydiv_Inr_iff Let_def)

lemma project_years_ten_Inr_D:
  assumes "project_years c w [1..<11] st = Inr st'"
  shows "revenue c \<noteq> 0 \<and> 1 + w \<noteq> 0"
proof -
  have "[1..<11] = 1 # [2..<11]" by (simp add: upt_rec)
  with assms obtain st1 where "project_year c w 1 st = Inr st1"
    by (auto simp: and_then_Inr_iff)
  from project_year_Inr_D [OF this] show ?thesis by simp
qed

lemma unpack3_Inr_D: "unpack3 r = Inr (w, ce, cd) \<Longrightarrow> r = Triple w ce cd"
  by (cases r) simp_all

lemma dcf_stage_Inr_D:
  assumes "dcf_stage c = Inr d"
  shows "\<exists>w ce cd. calculate_wacc (risk_free_rate c) (beta c) (market_risk_premium c) (debt c)
             (market_cap_estimate c) (tax_rate c) (country_risk_premium c) (size_premium c)
           = Inr (Triple w ce cd) \<and> revenue c \<noteq> 0 \<and> 1 + w \<noteq> 0 \<and> shares_outstanding c \<noteq> 0"
  using assms unfolding dcf_stage_def Let_def
  by (auto simp: and_then_Inr_iff pydiv_Inr_iff simp del: One_nat_def split: prod.splits
      dest!: unpack3_Inr_D project_years_ten_Inr_D)

subsection \<open>The simulation under the two stand-in generators\<close>

lemma still_gauss_draw: "still_gauss q mu sigma = (mu + sigma * q, q)"
  by (simp add: still_gauss_def)

lemma counting_gauss_draw: "counting_gauss n mu sigma = (mu + sigma * real n, Suc n)"
  by (simp add: counting_gauss_def)

lemma mc_loop_still:
  assumes "1 + dv * q \<noteq> 0"
  shows "mc_loop still_gauss b gv dv n acc q =
           Inr (acc @ replicate n (b * (1 + gv * q) / (1 + dv * q)), q)"
proof (induction n arbitrary: acc)
  case 0
  show ?case by simp
next
  case (Suc n)
  let ?v = "b * (1 + gv * q) / (1 + dv * q)"
  have "mc_loop still_gauss b gv dv (Suc n) acc q = mc_loop still_gauss b gv dv n (acc @ [?v]) q"
    using assms by (simp add: still_gauss_draw pydiv_nonzero)
  also have "\<dots> = Inr ((acc @ [?v]) @ replicate n ?v, q)"
    by (rule Suc.IH)
  finally show ?case by simp
qed

lemma tenth_below: "0 < n \<Longrightarrow> nat \<lfloor>real n * 0.1\<rfloor> < n"
  by linarith

lemma nine_tenths_below: "0 < n \<Longrightarrow> nat \<lfloor>real n * 0.9\<rfloor> < n"
  by linarith

lemma sort_replicate: "sort (replicate n (v::real)) = replicate n v"
  by (simp add: sorted_sort_id)

lemma monte_carlo_still:
  assumes "1 + dv * q \<noteq> 0" and "2 \<le> n"
  shows "monte_carlo_valuation still_gauss b gv dv n q =
           Inr (\<lparr> mean = b * (1 + gv * q) / (1 + dv * q),
                  median = b * (1 + gv * q) / (1 + dv * q),
                  std = 0,
                  p10 = b * (1 + gv * q) / (1 + dv * q),
                  p90 = b * (1 + gv * q) / (1 + dv * q) \<rparr>, q)"
proof -
  from assms(2) have n: "0 < n" "n div 2 < n" "n \<noteq> 0" "\<not> n < 2" by simp_all
  show ?thesis
    using n tenth_below [OF n(1)] nine_tenths_below [OF n(1)]
    by (simp add: monte_carlo_valuation_def mc_loop_still [OF assms(1)] py_mean_def py_stdev_def
        pynth_def sort_replicate sum_list_replicate Let_def)
qed

subsection \<open>The printed table and the Z-score\<close>

lemma for_each_map:
  assumes "\<And>x. x \<in> set xs \<Longrightarrow> f x = Inr (h x)"
  shows "for_each f xs = Inr (map h xs)"
  using assms by (induction xs) simp_all

lemma sensitivity_cell_eq:
  assumes "1 + dr \<noteq> 0"
  shows "sensitivity_cell tf pv ca db tg dr =
           Inr (if dr \<le> tg then NA
                else Equity (pv + tf / (dr - tg) / (1 + dr) ^ 10 + ca - db))"
  using assms by (simp add: sensitivity_cell_def pydiv_nonzero Let_def)

lemma sensitivity_table_eq:
  assumes "\<And>dr. dr \<in> set (dr_range w) \<Longrightarrow> 1 + dr \<noteq> 0"
  shows "sensitivity_table w tg tf pv ca db =
           Inr (map (\<lambda>tg'. map (\<lambda>dr. if dr \<le> tg' then NA
                                     else Equity (pv + tf / (dr - tg') / (1 + dr) ^ 10 + ca - db))
                               (dr_range w))
                    (tg_range tg))"
  unfolding sensitivity_table_def
  by (intro for_each_map sensitivity_cell_eq assms)

lemma altman_z_score_eq:
  "altman_z_score rv eb eq db wc =
     Inr (1.2 * (if 0 < eq + db then wc / (eq + db) else 0)
          + 1.4 * (if 0 < eq + db then eb * 0.6 / (eq + db) else 0)
          + 3.3 * (if 0 < eq + db then eb / (eq + db) else 0)
          + 0.6 * (if 0 < db then eq / db else 10)
          + 1.0 * (if 0 < eq + db then rv / (eq + db) else 0),
          if 2.99 < 1.2 * (if 0 < eq + db then wc / (eq + db) else 0)
          + 1.4 * (if 0 < eq + db then eb * 0.6 / (eq + db) else 0)
          + 3.3 * (if 0 < eq + db then eb / (eq + db) else 0)
          + 0.6 * (if 0 < db then eq / db else 10)
          + 1.0 * (if 0 < eq + db then rv / (eq + db) else 0) then ''Safe Zone''
          else if 1.81 < 1.2 * (if 0 < eq + db then wc / (eq + db) else 0)
          + 1.4 * (if 0 < eq + db then eb * 0.6 / (eq + db) else 0)
          + 3.3 * (if 0 < eq + db then eb / (eq + db) else 0)
          + 0.6 * (if 0 < db then eq / db else 10)
          + 1.0 * (if 0 < eq + db then rv / (eq + db) else 0) then ''Grey Zone''
          else ''Distress Zone'')"
  unfolding altman_z_score_def Let_def guarded_div and_then.simps
  by (rule refl)

lemma altman_z_score_returns: "\<exists>z zone. altman_z_score rv eb eq db wc = Inr (z, zone)"
  by (simp add: altman_z_score_eq)

subsection \<open>The valuation as a whole\<close>

lemma and_then_projr: "\<not> isl x \<Longrightarrow> and_then x f = f (projr x)"
  by (cases x) simp_all

lemma pynth_first: "xs \<noteq> [] \<Longrightarrow> pynth xs 0 = Inr (hd xs)"
  by (cases xs) (simp_all add: pynth_def)

lemma enhanced_dcf_valuation_returns:
  assumes w: "calculate_wacc (risk_free_rate c) (beta c) (market_risk_premium c) (debt c)
             (market_cap_estimate c) (tax_rate c) (country_risk_premium c) (size_premium c)
           = Inr (Triple w ce cd)"
    and nz: "revenue c \<noteq> 0" "1 + w \<noteq> 0" "shares_outstanding c \<noteq> 0"
    and cap: "market_cap_estimate c \<noteq> 0"
    and dr: "\<And>dr. dr \<in> set (dr_range w) \<Longrightarrow> 1 + dr \<noteq> 0"
    and mc: "\<And>b. \<exists>r. monte_carlo_valuation gauss b 0.15 0.10 1000 g = Inr r"
  shows "\<exists>out g'. enhanced_dcf_valuation gauss c g = Inr (out, g')"
proof -
  have ne: "map (spec_fcf c) [1..<11] \<noteq> []" by simp
  have tb: "\<not> isl (sensitivity_table w tg tf pv ca db)" for tg tf pv ca db
    by (simp add: sensitivity_table_eq [OF dr])
  have sim: "\<not> isl (monte_carlo_valuation gauss b 0.15 0.10 1000 g)" for b
    using mc [of b] by auto
  show ?thesis
    unfolding enhanced_dcf_valuation_def dcf_stage_eq [OF w nz] and_then.simps Let_def
      guarded_div calculate_financial_ratios_eq altman_z_score_eq prod.case
      dcf_locals.simps pydiv_nonzero [OF nz(3)] pydiv_nonzero [OF cap]
      pynth_first [OF ne] and_then_projr [OF tb] and_then_projr [OF sim]
    by (simp add: split_beta)
qed

lemma enhanced_dcf_valuation_Inr_D:
  assumes "enhanced_dcf_valuation gauss c g = Inr (out, g')"
  shows "\<exists>d. dcf_stage c = Inr d
           \<and> dcf_equity_value out = l_dcf_equity_value d
           \<and> dcf_price_per_share out = l_dcf_price_per_share d
           \<and> wacc out = l_wacc d
           \<and> recommendation out = recommendation_of (upside_pct out)"
  using assms
  unfolding enhanced_dcf_valuation_def Let_def guarded_div calculate_financial_ratios_eq
    altman_z_score_eq
  by (auto simp: and_then_Inr_iff split: prod.splits)

lemma enhanced_dcf_valuation_frame:
  assumes "enhanced_dcf_valuation gauss c g = Inr (out, g')"
    and "enhanced_dcf_valuation gauss2 c g2 = Inr (out2, g2')"
  shows "out\<lparr>mc_p10 := x, mc_p90 := y\<rparr> = out2\<lparr>mc_p10 := x, mc_p90 := y\<rparr>"
  using assms
  unfolding enhanced_dcf_valuation_def Let_def guarded_div calculate_financial_ratios_eq
    altman_z_score_eq
  by (auto simp: and_then_Inr_iff pydiv_Inr_iff split: prod.splits)

subsection \<open>The example company\<close>

lemma example_wacc:
  "calculate_wacc (risk_free_rate example_company) (beta example_company)
     (market_risk_premium example_company) (debt example_company)
     (market_cap_estimate example_company) (tax_rate example_company)
     (country_risk_premium example_company) (size_premium example_company)
   = Inr (Triple (873 / 5600) 0.175 0.055)"
  by (simp add: example_company_def calculate_wacc_eq)

lemma example_returns:
  assumes "1 + 0.10 * q \<noteq> 0"
  shows "\<exists>out g'. enhanced_dcf_valuation still_gauss example_company q = Inr (out, g')"
proof (rule enhanced_dcf_valuation_returns [OF example_wacc])
  show "\<exists>r. monte_carlo_valuation still_gauss b 0.15 0.10 1000 q = Inr r" for b
    using assms by (simp add: monte_carlo_still)
qed (auto simp: example_company_def dr_range_def)

subsection \<open>The recommendation\<close>

lemma reported_recommendation:
  assumes "enhanced_dcf_valuation gauss c g = Inr (out, g')"
  shows "recommendation out = recommendation_of (upside_pct out)"
  using enhanced_dcf_valuation_Inr_D [OF assms] by blast

text \<open>
  Claim C3. The recommendation is fixed by strict thresholds taken in order: above 20
  STRONG BUY, above 10 BUY, above -10 HOLD, above -20 UNDERWEIGHT, otherwise SELL. The five
  bands are disjoint and cover every value; 20 itself is BUY, 20.01 is STRONG BUY, -10 is
  UNDERWEIGHT and -20 is SELL. The recommendation a returning valuation reports is the one
  of the upside it reports.
\<close>

theorem recommendation_bands:
  "(recommendation_of u = ''STRONG BUY'' \<longleftrightarrow> 20 < u)
   \<and> (recommendation_of u = ''BUY'' \<longleftrightarrow> 10 < u \<and> u \<le> 20)
   \<and> (recommendation_of u = ''HOLD'' \<longleftrightarrow> -10 < u \<and> u \<le> 10)
   \<and> (recommendation_of u = ''UNDERWEIGHT'' \<longleftrightarrow> -20 < u \<and> u \<le> -10)
   \<and> (recommendation_of u = ''SELL'' \<longleftrightarrow> u \<le> -20)
   \<and> recommendation_of 20 = ''BUY''
   \<and> recommendation_of 20.01 = ''STRONG BUY''
   \<and> recommendation_of (-10) = ''UNDERWEIGHT''
   \<and> recommendation_of (-20) = ''SELL''
   \<and> (\<forall>gauss c g out g'. enhanced_dcf_valuation gauss c g = Inr (out, g') \<longrightarrow>
         recommendation out = recommendation_of (upside_pct out))"
  by (intro conjI allI impI) (erule reported_recommendation | simp add: recommendation_of_def)+

theorem recommendation_bands_witness:
  "\<exists>out g'. enhanced_dcf_valuation still_gauss example_company 0 = Inr (out, g')
     \<and> recommendation out = recommendation_of (upside_pct out)
     \<and> (recommendation out = ''STRONG BUY'' \<longleftrightarrow> 20 < upside_pct out)
     \<and> (recommendation out = ''SELL'' \<longleftrightarrow> upside_pct out \<le> -20)"
proof -
  from example_returns [of 0] obtain out g' where
    r: "enhanced_dcf_valuation still_gauss example_company 0 = Inr (out, g')" by auto
  note bands = recommendation_bands [where ?'a = real and u = "upside_pct out"]
  from bands have "\<forall>gauss c (g :: real) out g'.
      enhanced_dcf_valuation gauss c g = Inr (out, g') \<longrightarrow>
      recommendation out = recommendation_of (upside_pct out)"
    by (elim conjE)
  with r have eq: "recommendation out = recommendation_of (upside_pct out)"
    by blast
  from bands have
    "recommendation_of (upside_pct out) = ''STRONG BUY'' \<longleftrightarrow> 20 < upside_pct out"
    "recommendation_of (upside_pct out) = ''SELL'' \<longleftrightarrow> upside_pct out \<le> -20"
    by blast+
  with r eq show ?thesis
    by (intro exI [of _ out] exI [of _ g'] conjI) simp_all
qed

subsection \<open>The claims on the DCF value\<close>



text \<open>
  The terminal value is not positive for every valid input: the loss maker has a WACC
  below its terminal growth, the clamp applies, and its terminal value is negative,
  because its free cash flow of year 10 is.
\<close>

lemma loss_maker_wacc:
  "calculate_wacc (risk_free_rate loss_maker) (beta loss_maker)
     (market_risk_premium loss_maker) (debt loss_maker)
     (market_cap_estimate loss_maker) (tax_rate loss_maker)
     (country_risk_premium loss_maker) (size_premium loss_maker)
   = Inr (Triple (19 / 880) 0.05 0.025)"
  by (simp add: loss_maker_def calculate_wacc_eq)

lemma loss_maker_fcf: "spec_fcf loss_maker 10 < 0"
  by (simp add: spec_fcf_def loss_maker_def growth_schedule_def eval_nat_numeral)

theorem terminal_clamp_counterexample:
  "map_sum id (\<lambda>d. (l_wacc d \<le> terminal_growth loss_maker,
                      clamped_growth (l_terminal d) = l_wacc d - 0.01,
                      terminal_value (l_terminal d) < 0))
     (dcf_stage loss_maker) = Inr (True, True, True)"
proof -
  have nz: "revenue loss_maker \<noteq> 0" "1 + (19 / 880 :: real) \<noteq> 0"
    "shares_outstanding loss_maker \<noteq> 0"
    by (simp_all add: loss_maker_def)
  have tg: "terminal_growth loss_maker = 0.03" by (simp add: loss_maker_def)
  have "spec_fcf loss_maker 10 * (1 + 0.03) / (19 / 880 - min 0.03 (19 / 880 - 0.01)) < 0"
    using loss_maker_fcf by (simp add: divide_less_0_iff mult_less_0_iff)
  then show ?thesis
    by (simp add: dcf_stage_eq [OF loss_maker_wacc nz] tg spec_terminal_def Let_def)
qed

subsection \<open>The facade on inputs outside the data model\<close>

lemma project_years_ten_raises:
  assumes "revenue c = 0 \<or> 1 + w = 0"
  shows "project_years c w [1..<11] (r, s, fs) = Inl ZeroDivisionError"
proof -
  have l: "[1..<11] = 1 # [2..<11]" by (simp add: upt_rec)
  have "project_year c w 1 (r, s, fs) = Inl ZeroDivisionError"
    using assms
    by (auto simp: project_year_def pynth_def length_growth_schedule pydiv_def Let_def)
  then show ?thesis by (simp only: l project_years.simps and_then.simps)
qed

lemma calculate_wacc_cases:
  "(\<exists>ce. calculate_wacc rf b mrp db eq tx cr sp = Inr (Bare ce))
   \<or> (\<exists>w ce cd. calculate_wacc rf b mrp db eq tx cr sp = Inr (Triple w ce cd))"
  by (cases "db + eq = 0") (simp_all add: calculate_wacc_zero_capital calculate_wacc_eq)

lemma dcf_stage_raises:
  assumes "revenue c = 0 \<or> shares_outstanding c = 0"
  shows "dcf_stage c = Inl ZeroDivisionError \<or> dcf_stage c = Inl TypeError"
proof -
  consider ce where "calculate_wacc (risk_free_rate c) (beta c) (market_risk_premium c) (debt c)
             (market_cap_estimate c) (tax_rate c) (country_risk_premium c) (size_premium c)
           = Inr (Bare ce)"
    | w ce cd where "calculate_wacc (risk_free_rate c) (beta c) (market_risk_premium c) (debt c)
             (market_cap_estimate c) (tax_rate c) (country_risk_premium c) (size_premium c)
           = Inr (Triple w ce cd)"
    using calculate_wacc_cases by blast
  then show ?thesis
  proof cases
    case 1
    then show ?thesis by (simp add: dcf_stage_def)
  next
    case 2
    show ?thesis
    proof (cases "revenue c = 0 \<or> 1 + w = 0")
      case True
      then show ?thesis
        by (simp add: dcf_stage_def 2 project_years_ten_raises del: One_nat_def)
    next
      case False
      with assms have sh: "shares_outstanding c = 0" and nz: "revenue c \<noteq> 0" "1 + w \<noteq> 0"
        by auto
      have ne: "map (spec_fcf c) [1..<11] \<noteq> []" by simp
      show ?thesis
        by (simp add: dcf_stage_def 2 project_years_ten [OF nz] terminal_value_calc_eq [OF ne nz(2)]
            sh pydiv_zero Let_def del: One_nat_def)
    qed
  qed
qed

text \<open>
  Claim C4, as amended. The facade checks nothing on entry. With a revenue of zero or a
  share count of zero the valuation raises part-way (a division by zero, or the failed
  unpacking when total capital is zero as well), and the facade returns \<^verbatim>\<open>None\<close> for
  the whole call. What it returns otherwise is a complete result record: the result type
  has no partial values.
\<close>

theorem facade_fails_as_a_whole:
  assumes "revenue c = 0 \<or> shares_outstanding c = 0"
  shows "run_valuation gauss c g = None
         \<and> (enhanced_dcf_valuation gauss c g = Inl ZeroDivisionError
            \<or> enhanced_dcf_valuation gauss c g = Inl TypeError)"
  using dcf_stage_raises [OF assms]
  by (auto simp: run_valuation_def enhanced_dcf_valuation_def)

theorem facade_fails_as_a_whole_witness:
  "run_valuation still_gauss (example_company\<lparr>revenue := 0\<rparr>) 0 = None
   \<and> run_valuation still_gauss (example_company\<lparr>shares_outstanding := 0\<rparr>) 0 = None"
  using facade_fails_as_a_whole [of "example_company\<lparr>revenue := 0\<rparr>" still_gauss 0]
    facade_fails_as_a_whole [of "example_company\<lparr>shares_outstanding := 0\<rparr>" still_gauss 0]
  by simp

text \<open>
  A negative revenue, a negative share count and a tax rate of 150 percent are not
  rejected: on the example company with one of these fields changed the facade returns a
  result.
\<close>

lemma still_returns:
  assumes "db + cap \<noteq> 0" and "rv \<noteq> 0" and "sh \<noteq> 0" and "cap \<noteq> 0"
    and "c = example_company\<lparr>revenue := rv, shares_outstanding := sh, tax_rate := tx,
           debt := db, market_cap_estimate := cap\<rparr>"
    and "w = cap / (db + cap) * 0.175 + db / (db + cap) * (0.04 + (if cap < db then 0.025 else 0.015)) * (1 - tx)"
    and "w \<notin> {-0.98, -0.99, -1, -1.01, -1.02}"
  shows "run_valuation still_gauss c 0 \<noteq> None"
proof -
  have wacc: "calculate_wacc (risk_free_rate c) (beta c) (market_risk_premium c) (debt c)
             (market_cap_estimate c) (tax_rate c) (country_risk_premium c) (size_premium c)
           = Inr (Triple w 0.175 (0.04 + (if cap < db then 0.025 else 0.015)))"
    using assms(1) by (simp add: assms(5,6) example_company_def calculate_wacc_eq)
  have "\<exists>out g'. enhanced_dcf_valuation still_gauss c 0 = Inr (out, g')"
  proof (rule enhanced_dcf_valuation_returns [OF wacc])
    show "\<exists>r. monte_carlo_valuation still_gauss b 0.15 0.10 1000 0 = Inr r" for b
      by (simp add: monte_carlo_still)
    show "1 + dr \<noteq> 0" if "dr \<in> set (dr_range w)" for dr
      using that assms(7) by (auto simp: dr_range_def)
  qed (use assms in \<open>auto simp: example_company_def\<close>)
  then show ?thesis by (auto simp: run_valuation_def)
qed

theorem facade_validates_counterexample:
  "run_valuation still_gauss (example_company\<lparr>revenue := -5000000\<rparr>) 0 \<noteq> None
   \<and> run_valuation still_gauss (example_company\<lparr>shares_outstanding := -1000000\<rparr>) 0 \<noteq> None
   \<and> run_valuation still_gauss (example_company\<lparr>tax_rate := 1.5\<rparr>) 0 \<noteq> None"
proof (intro conjI)
  show "run_valuation still_gauss (example_company\<lparr>revenue := -5000000\<rparr>) 0 \<noteq> None"
    by (rule still_returns [where rv = "-5000000" and sh = 1000000 and tx = "0.25"
          and db = 500000 and cap = 3000000 and w = "873 / 5600"])
       (simp_all add: example_company_def)
  show "run_valuation still_gauss (example_company\<lparr>shares_outstanding := -1000000\<rparr>) 0 \<noteq> None"
    by (rule still_returns [where rv = 5000000 and sh = "-1000000" and tx = "0.25"
          and db = 500000 and cap = 3000000 and w = "873 / 5600"])
       (simp_all add: example_company_def)
  show "run_valuation still_gauss (example_company\<lparr>tax_rate := 1.5\<rparr>) 0 \<noteq> None"
    by (rule still_returns [where rv = 5000000 and sh = 1000000 and tx = "1.5"
          and db = 500000 and cap = 3000000 and w = "818 / 5600"])
       (simp_all add: example_company_def)
qed

subsection \<open>Reproducibility\<close>

text \<open>
  Claim C5, as amended. The simulation takes no seed: it draws from the generator of the
  process. Two calls of the facade on the same input that both return give the same
  result in every field other than \<open>mc_p10\<close> and \<open>mc_p90\<close>, whatever states the
  generator is in; the two percentiles are fixed by the state of the generator at the
  call, so that calls from the same state give the same result.
\<close>

theorem outputs_agree_outside_simulation:
  assumes "run_valuation gauss c g1 = Some (o1, h1)"
    and "run_valuation gauss c g2 = Some (o2, h2)"
  shows "o1\<lparr>mc_p10 := x, mc_p90 := y\<rparr> = o2\<lparr>mc_p10 := x, mc_p90 := y\<rparr>
         \<and> (g1 = g2 \<longrightarrow> o1 = o2 \<and> h1 = h2)"
proof -
  from assms have r: "enhanced_dcf_valuation gauss c g1 = Inr (o1, h1)"
    "enhanced_dcf_valuation gauss c g2 = Inr (o2, h2)"
    by (auto simp: run_valuation_def split: sum.splits)
  from enhanced_dcf_valuation_frame [OF r] r show ?thesis by auto
qed

theorem outputs_agree_outside_simulation_witness:
  "\<exists>o1 o2 h1 h2. run_valuation still_gauss example_company 0 = Some (o1, h1)
     \<and> run_valuation still_gauss example_company 1 = Some (o2, h2)
     \<and> o1\<lparr>mc_p10 := 0, mc_p90 := 0\<rparr> = o2\<lparr>mc_p10 := 0, mc_p90 := 0\<rparr>"
proof -
  from example_returns [of 0] obtain o1 h1 where
    a: "run_valuation still_gauss example_company 0 = Some (o1, h1)"
    by (auto simp: run_valuation_def)
  from example_returns [of 1] obtain o2 h2 where
    b: "run_valuation still_gauss example_company 1 = Some (o2, h2)"
    by (auto simp: run_valuation_def)
  from outputs_agree_outside_simulation [OF a b, of 0 0] a b show ?thesis by blast
qed

text \<open>
  Two calls of the simulation with the same arguments differ as soon as the generator
  moves between them: under the counting generator a first call with two iterations
  starts at state 0, reports the percentiles \<open>1000 / 11\<close> and \<open>100\<close> and leaves state 4;
  the second call, with the same arguments, starts there and reports \<open>320 / 3\<close> and
  \<open>1900 / 17\<close>.
\<close>

theorem simulation_unseeded_counterexample:
  "map_sum id (\<lambda>(r, g). (p10 r, p90 r, g)) (monte_carlo_valuation counting_gauss 100 0.15 0.10 2 0)
     = Inr (1000 / 11, 100, 4)
   \<and> map_sum id (\<lambda>(r, g). (p10 r, p90 r, g)) (monte_carlo_valuation counting_gauss 100 0.15 0.10 2 4)
     = Inr (320 / 3, 1900 / 17, 8)"
  by (simp add: monte_carlo_valuation_def numeral_2_eq_2 counting_gauss_draw pydiv_def
      py_mean_def py_stdev_def pynth_def Let_def)

subsection \<open>The two sensitivity computations\<close>






subsection \<open>The definitions with rounding, at the identity\<close>





lemma and_then_if: "and_then (if b then x else y) k = (if b then and_then x k else and_then y k)"
  by simp


subsection \<open>The clamp of the terminal growth\<close>

lemma mono_nearest_whole: "mono nearest_whole"
  by (rule monoI) (simp add: nearest_whole_def floor_mono)

text \<open>
  Claim C2, as amended. Let the WACC \<open>w\<close> the engine has computed not exceed the terminal
  growth, and let the projection have passed (\<open>1 + w\<close> is not zero). The terminal cash
  flow is the last projected cash flow grown by the terminal growth as given. The growth
  is then clamped to \<open>min terminal_growth (w - 0.01)\<close>, which is the rounded \<open>w - 0.01\<close>.
  The divisor of the terminal value, the rounded difference of \<open>w\<close> and the clamped growth,
  is never negative: it is 0.01 in exact arithmetic, and it is zero when \<open>w - 0.01\<close> rounds
  back to \<open>w\<close>. The division raises exactly when the divisor is zero; otherwise the terminal
  value is the terminal cash flow over the divisor, and it is positive exactly when the
  terminal cash flow is positive. The rounding \<open>rnd\<close> is any monotone function that leaves
  \<open>w\<close> and 0 as they are, as rounding to the nearest double does.
\<close>

theorem terminal_clamp:
  assumes "w \<le> tg" and "fs \<noteq> []" and "1 + w \<noteq> 0"
    and "mono rnd" and "rnd w = w" and "rnd 0 = 0"
  shows "min tg (rnd (w - 0.01)) = rnd (w - 0.01)
         \<and> 0 \<le> rnd (w - rnd (w - 0.01))
         \<and> terminal_value_calc_rnd rnd w tg fs =
             (if rnd (w - rnd (w - 0.01)) = 0 then Inl ZeroDivisionError
              else Inr \<lparr> terminal_fcf = last fs * (1 + tg),
                         clamped_growth = rnd (w - 0.01),
                         terminal_value = last fs * (1 + tg) / rnd (w - rnd (w - 0.01)),
                         pv_terminal_value =
                           last fs * (1 + tg) / rnd (w - rnd (w - 0.01)) / (1 + w) ^ 10 \<rparr>)
         \<and> (rnd (w - rnd (w - 0.01)) \<noteq> 0 \<longrightarrow>
               (0 < last fs * (1 + tg) / rnd (w - rnd (w - 0.01)) \<longleftrightarrow> 0 < last fs * (1 + tg)))
         \<and> (rnd = id \<longrightarrow> rnd (w - rnd (w - 0.01)) = 0.01)"
proof -
  have "rnd (w - 0.01) \<le> rnd w"
    by (rule monoD [OF assms(4)]) simp
  with assms(5) have below: "rnd (w - 0.01) \<le> w" by simp
  with assms(1) have clamp: "min tg (rnd (w - 0.01)) = rnd (w - 0.01)" by simp
  have "rnd 0 \<le> rnd (w - rnd (w - 0.01))"
    by (rule monoD [OF assms(4)]) (use below in simp)
  with assms(6) have nonneg: "0 \<le> rnd (w - rnd (w - 0.01))" by simp
  have calc: "terminal_value_calc_rnd rnd w tg fs =
             (if rnd (w - rnd (w - 0.01)) = 0 then Inl ZeroDivisionError
              else Inr \<lparr> terminal_fcf = last fs * (1 + tg),
                         clamped_growth = rnd (w - 0.01),
                         terminal_value = last fs * (1 + tg) / rnd (w - rnd (w - 0.01)),
                         pv_terminal_value =
                           last fs * (1 + tg) / rnd (w - rnd (w - 0.01)) / (1 + w) ^ 10 \<rparr>)"
    using assms(1,2,3) clamp
    by (simp add: terminal_value_calc_rnd_def pylast_def Let_def pydiv_def)
  have sign: "0 < last fs * (1 + tg) / rnd (w - rnd (w - 0.01)) \<longleftrightarrow> 0 < last fs * (1 + tg)"
    if "rnd (w - rnd (w - 0.01)) \<noteq> 0"
    using that nonneg by (simp add: zero_less_divide_iff)
  have exact: "rnd (w - rnd (w - 0.01)) = 0.01" if "rnd = id"
    by (simp add: that)
  from clamp nonneg calc sign exact show ?thesis by blast
qed

theorem terminal_clamp_witness:
  "terminal_value_calc_rnd id 0.02 0.03 [10, 20] =
     Inr \<lparr> terminal_fcf = 20.6, clamped_growth = 0.01, terminal_value = 2060,
           pv_terminal_value = 2060 / 1.02 ^ 10 \<rparr>
   \<and> terminal_value_calc_rnd nearest_whole 5 7 [1] = Inl ZeroDivisionError"
proof -
  have a: "(0.02 :: real) \<le> 0.03" "[10, 20 :: real] \<noteq> []" "1 + (0.02 :: real) \<noteq> 0"
    "mono (id :: real \<Rightarrow> real)" "id (0.02 :: real) = 0.02" "id (0 :: real) = 0"
    by (simp_all add: mono_def)
  have b: "(5 :: real) \<le> 7" "[1 :: real] \<noteq> []" "1 + (5 :: real) \<noteq> 0"
    "nearest_whole 5 = 5" "nearest_whole 0 = 0"
    by (simp_all add: nearest_whole_def)
  have c: "nearest_whole (5 - 0.01) = 5" "nearest_whole (5 - 5) = 0"
    by (simp_all add: nearest_whole_def)
  from terminal_clamp [OF a] terminal_clamp [OF b(1,2,3) mono_nearest_whole b(4,5)] c
  show ?thesis by (simp add: id_def)
qed

subsection \<open>The printed table\<close>









end
